theory Spec2Isabelle
  imports Main "HOL-Library.Word"
begin

section \<open>The FPS limiter of gamescope (src/FPSLimiter.h)\<close>

text \<open>
  \<^verbatim>\<open>CFPSLimiter\<close> paces a game's frames by holding the buffers it submits and releasing
  the oldest one when a timer fires. The embedding is sequential: the three mutexes
  (\<^verbatim>\<open>m_mutHeldBuffers\<close>, \<^verbatim>\<open>m_ScheduleMutex\<close>, the texture's \<^verbatim>\<open>m_mutBufferTimestamp\<close>)
  and \<^verbatim>\<open>m_bArmed.notify_all()\<close> have no counterpart. What a method reads from outside
  the object is a parameter of its model: the schedule returned by
  \<^verbatim>\<open>GetVBlankTimer().CalcNextWakeupTime( true )\<close> and the value of
  \<^verbatim>\<open>get_time_in_nanos()\<close>.
\<close>

subsection \<open>Data\<close>

type_synonym uint64_t = "64 word"
type_synonym uint32_t = "32 word"

text \<open>
  Modelled from the spec: \<^verbatim>\<open>VBlankScheduleTime\<close> is declared in vblankmanager.hpp, which is
  not among the sources. The limiter reads its members \<^verbatim>\<open>ulTargetVBlank\<close> and
  \<^verbatim>\<open>ulScheduledWakeupPoint\<close>; the specification's contract of the refresh oracle returns
  a refresh time, a latch deadline and a wake-up time, so the record has a latch member too.
\<close>

record VBlankScheduleTime =
  ulTargetVBlank :: uint64_t
  ulTargetLatch :: uint64_t
  ulScheduledWakeupPoint :: uint64_t

text \<open>
  \<^verbatim>\<open>struct FPSLimitScheduleTime_t\<close>. Its members have the names of the oracle's; declared
  second, it owns the short names, and the oracle's are written
  \<open>VBlankScheduleTime.ulTargetVBlank\<close> and so on.
\<close>

record FPSLimitScheduleTime_t =
  ulTargetVBlank :: uint64_t
  ulTargetLatch :: uint64_t
  ulScheduledWakeupPoint :: uint64_t

text \<open>
  Modelled from the spec: \<^verbatim>\<open>CVulkanTexture\<close> and the type of its timestamps are declared in
  rendervulkan.hpp, which is not among the sources. The specification's timestamp record
  has a submit time, a completion time and a release time; the designated initialiser in
  \<^verbatim>\<open>MarkFrame\<close> names them \<^verbatim>\<open>ulCPUTime\<close>, \<^verbatim>\<open>ulGPUTime\<close>, \<^verbatim>\<open>ulReleaseTime\<close>.
\<close>

record BufferTimestamp =
  ulCPUTime :: uint64_t
  ulGPUTime :: uint64_t
  ulReleaseTime :: uint64_t

text \<open>
  The texture has the members that the limiter names, and the limiter names two:
  \<^verbatim>\<open>m_BufferTimestamp\<close>, whose release time \<^verbatim>\<open>MarkFrame\<close> reads and which
  \<^verbatim>\<open>ReleaseOldestBuffer\<close> assigns, and \<^verbatim>\<open>m_oBufferTimestamp\<close>, which \<^verbatim>\<open>MarkFrame\<close> assigns.
  Both have the type of the record that \<^verbatim>\<open>MarkFrame\<close> assigns.
\<close>

record CVulkanTexture =
  m_BufferTimestamp :: BufferTimestamp
  m_oBufferTimestamp :: BufferTimestamp

text \<open>
  An \<^verbatim>\<open>Rc<CVulkanTexture>\<close> is a shared reference: the queue holds references, and the
  textures live in a store indexed by them, so that one texture held twice is one texture.
\<close>

type_synonym texture_ref = nat

text \<open>
  The members of \<^verbatim>\<open>CFPSLimiter\<close>. \<^verbatim>\<open>m_ulLastGPUTimestamp\<close> and \<^verbatim>\<open>m_ulLastRelease\<close> are
  read by \<^verbatim>\<open>CalcNextWakeupTime\<close> but declared nowhere in the file, and no method writes
  them. \<open>m_ulTimerDeadline\<close> is the one member that is not the source's.
  Modelled from the spec: \<^verbatim>\<open>ITimerWaitable\<close> is declared in waitable.h, which is not among
  the sources; the specification's deadline timer is single-shot and takes an absolute
  deadline, so \<open>m_ulTimerDeadline\<close> holds the deadline last registered through
  \<^verbatim>\<open>ITimerWaitable::ArmTimer\<close>, if any.
\<close>

record CFPSLimiter =
  m_bArmed :: bool
  m_bRunning :: bool
  m_uTotalBuffers :: uint32_t
  m_uAcquiredBuffers :: uint32_t
  m_pHeldBuffers :: "texture_ref list"
  m_TimerFDSchedule :: FPSLimitScheduleTime_t
  m_ulLastGPUTimestamp :: uint64_t
  m_ulLastRelease :: uint64_t
  m_ulTimerDeadline :: "uint64_t option"

text \<open>The limiter together with the textures its references point to.\<close>

record world =
  limiter :: CFPSLimiter
  textures :: "texture_ref \<Rightarrow> CVulkanTexture"

text \<open>
  The default member initialisers. The two undeclared members have no initialiser in the
  file; their initial values are parameters.
\<close>

definition CFPSLimiter_init :: "uint64_t \<Rightarrow> uint64_t \<Rightarrow> CFPSLimiter" where
  "CFPSLimiter_init ulLastGPUTimestamp ulLastRelease =
     \<lparr> m_bArmed = False,
       m_bRunning = True,
       m_uTotalBuffers = 1,
       m_uAcquiredBuffers = 1,
       m_pHeldBuffers = [],
       m_TimerFDSchedule =
         \<lparr> ulTargetVBlank = 0, ulTargetLatch = 0, ulScheduledWakeupPoint = 0 \<rparr>,
       m_ulLastGPUTimestamp = ulLastGPUTimestamp,
       m_ulLastRelease = ulLastRelease,
       m_ulTimerDeadline = None \<rparr>"

subsection \<open>Wake-up time\<close>

text \<open>
  \<^verbatim>\<open>CalcNextWakeupTime\<close>: \<open>nextVBlankSchedule\<close> is what the vblank timer returned and
  \<open>ulNow\<close> what \<^verbatim>\<open>get_time_in_nanos()\<close> returned. The method writes no member, and
  \<open>bPreemptive\<close> is not used in its body. All arithmetic is on \<^verbatim>\<open>uint64_t\<close> and wraps.
\<close>

definition CalcNextWakeupTime ::
  "VBlankScheduleTime \<Rightarrow> uint64_t \<Rightarrow> bool \<Rightarrow> CFPSLimiter \<Rightarrow> FPSLimitScheduleTime_t" where
  "CalcNextWakeupTime nextVBlankSchedule ulNow bPreemptive s =
     (let ulDelta = m_ulLastGPUTimestamp s - m_ulLastRelease s;
          ulNextReleaseTime = VBlankScheduleTime.ulScheduledWakeupPoint nextVBlankSchedule - ulDelta;
          ulSloppyNow = ulNow + 500000;
          ulNextReleaseTime = (if ulNextReleaseTime > ulSloppyNow then ulNow else ulNextReleaseTime)
      in \<lparr> ulTargetVBlank = VBlankScheduleTime.ulTargetVBlank nextVBlankSchedule,
           ulTargetLatch = VBlankScheduleTime.ulScheduledWakeupPoint nextVBlankSchedule,
           ulScheduledWakeupPoint = ulNextReleaseTime \<rparr>)"

subsection \<open>Arming the timer\<close>

definition ArmTimer :: "uint64_t \<Rightarrow> CFPSLimiter \<Rightarrow> CFPSLimiter" where
  "ArmTimer ulScheduledWakeupTime s = s\<lparr> m_ulTimerDeadline := Some ulScheduledWakeupTime \<rparr>"

definition ArmNextFrame ::
  "VBlankScheduleTime \<Rightarrow> uint64_t \<Rightarrow> bool \<Rightarrow> CFPSLimiter \<Rightarrow> CFPSLimiter" where
  "ArmNextFrame nextVBlankSchedule ulNow bPreemptive s =
     (if bPreemptive \<and> m_bArmed s then s
      else
        (let s1 = s\<lparr> m_bArmed := True \<rparr>;
             s2 = s1\<lparr> m_TimerFDSchedule := CalcNextWakeupTime nextVBlankSchedule ulNow bPreemptive s1 \<rparr>
         in ArmTimer (ulScheduledWakeupPoint (m_TimerFDSchedule s2)) s2))"

subsection \<open>The queue of held buffers\<close>

text \<open>
  \<^verbatim>\<open>HoldBuffer\<close>. The branch on \<open>uNewTotalAcquiredBuffers > m_uTotalBuffers\<close> holds a
  comment only.
\<close>

definition HoldBuffer :: "texture_ref \<Rightarrow> CFPSLimiter \<Rightarrow> CFPSLimiter" where
  "HoldBuffer pTexture s =
     s\<lparr> m_pHeldBuffers := m_pHeldBuffers s @ [pTexture],
        m_uAcquiredBuffers := m_uAcquiredBuffers s + 1 \<rparr>"

definition ReleaseAllBuffers :: "CFPSLimiter \<Rightarrow> uint32_t \<times> CFPSLimiter" where
  "ReleaseAllBuffers s =
     (let uOldTotalAcquiredBuffers = m_uAcquiredBuffers s
      in (uOldTotalAcquiredBuffers, s\<lparr> m_pHeldBuffers := [], m_uAcquiredBuffers := 0 \<rparr>))"

definition SetTotalBuffers :: "uint32_t \<Rightarrow> CFPSLimiter \<Rightarrow> CFPSLimiter" where
  "SetTotalBuffers uTotalBuffers s =
     snd (ReleaseAllBuffers (s\<lparr> m_uTotalBuffers := uTotalBuffers \<rparr>))"

text \<open>
  \<^verbatim>\<open>ReleaseOldestBuffer\<close>. The statement under the texture's lock is
  \<^verbatim>\<open>m_pHeldBuffers[0]->m_BufferTimestamp =\<close> and stops there: the source has no right-hand
  side (and the lock names a \<open>pTexture\<close> that the method does not have). The model takes the
  record that is assigned as the parameter \<open>rhs\<close>, so that whatever is proved of it holds
  for every way of completing the statement. The method does not call
  \<^verbatim>\<open>get_time_in_nanos()\<close>; it has no clock value of its own.
\<close>

definition ReleaseOldestBuffer :: "BufferTimestamp \<Rightarrow> world \<Rightarrow> uint32_t \<times> world" where
  "ReleaseOldestBuffer rhs w =
     (case m_pHeldBuffers (limiter w) of
        [] \<Rightarrow> (0, w)
      | p # rest \<Rightarrow>
          (let tex = (textures w)(p := (textures w p)\<lparr> m_BufferTimestamp := rhs \<rparr>);
               uOldTotalAcquiredBuffers = m_uAcquiredBuffers (limiter w)
           in (uOldTotalAcquiredBuffers,
               w\<lparr> textures := tex,
                  limiter := (limiter w)\<lparr> m_pHeldBuffers := rest,
                                          m_uAcquiredBuffers := m_uAcquiredBuffers (limiter w) - 1 \<rparr> \<rparr>)))"

subsection \<open>Frame submission\<close>

text \<open>
  The block of \<^verbatim>\<open>MarkFrame\<close> under the texture's lock: the value the local \<open>ulDelta\<close> has
  when the block ends, and the record that the block assigns. \<open>ulDelta\<close> starts at 0 and
  the only assignment to it is \<^verbatim>\<open>ulDelta = ulGPUTimestampNanos - ulDelta\<close>. The argument
  \<open>ts\<close> is the texture's \<^verbatim>\<open>m_BufferTimestamp\<close>, from which the block reads
  \<^verbatim>\<open>ulReleaseTime\<close>.
\<close>

definition MarkFrame_ulDelta :: "BufferTimestamp \<Rightarrow> uint64_t \<Rightarrow> uint64_t" where
  "MarkFrame_ulDelta ts ulGPUTimestampNanos =
     (let ulDelta = 0;
          ulReleaseTime = ulReleaseTime ts
      in if ulReleaseTime \<noteq> 0 then ulGPUTimestampNanos - ulDelta else ulDelta)"

definition MarkFrame_timestamp :: "BufferTimestamp \<Rightarrow> uint64_t \<Rightarrow> uint64_t \<Rightarrow> BufferTimestamp" where
  "MarkFrame_timestamp ts ulCPUTimestampNanos ulGPUTimestampNanos =
     (let ulReleaseTime = ulReleaseTime ts
      in \<lparr> ulCPUTime = ulCPUTimestampNanos,
           ulGPUTime = ulGPUTimestampNanos,
           ulReleaseTime = ulReleaseTime \<rparr>)"

text \<open>
  \<^verbatim>\<open>MarkFrame\<close>. The block reads \<^verbatim>\<open>pTexture->m_BufferTimestamp.ulReleaseTime\<close> and assigns
  \<^verbatim>\<open>pTexture->m_oBufferTimestamp\<close>; it does not assign \<^verbatim>\<open>m_BufferTimestamp\<close>. \<open>ulDelta\<close> is
  a local of the method: nothing after the block reads it and it is stored in no member.
\<close>

definition MarkFrame ::
  "VBlankScheduleTime \<Rightarrow> uint64_t \<Rightarrow> texture_ref \<Rightarrow> uint64_t \<Rightarrow> uint64_t \<Rightarrow> bool \<Rightarrow> world \<Rightarrow> world" where
  "MarkFrame nextVBlankSchedule ulNow pTexture ulCPUTimestampNanos ulGPUTimestampNanos bReArmTimer w =
     (let ts = m_BufferTimestamp (textures w pTexture);
          ulDelta = MarkFrame_ulDelta ts ulGPUTimestampNanos;
          tex = (textures w)(pTexture := (textures w pTexture)
                  \<lparr> m_oBufferTimestamp := MarkFrame_timestamp ts ulCPUTimestampNanos ulGPUTimestampNanos \<rparr>);
          s1 = HoldBuffer pTexture (limiter w);
          s2 = (if bReArmTimer then ArmNextFrame nextVBlankSchedule ulNow False s1 else s1)
      in w\<lparr> textures := tex, limiter := s2 \<rparr>)"

subsection \<open>Sequences of queue calls\<close>

text \<open>
  A sequence of \<^verbatim>\<open>HoldBuffer\<close> and \<^verbatim>\<open>ReleaseOldestBuffer\<close> calls, run from left to right.
  Beside the final state, the run collects the references taken out of the queue, in the
  order of the calls that took them out: \<^verbatim>\<open>ReleaseOldestBuffer\<close> erases the element at
  \<^verbatim>\<open>m_pHeldBuffers.begin()\<close> when the queue is not empty, and nothing otherwise.
\<close>

datatype queue_call = Hold texture_ref | ReleaseOldest BufferTimestamp

definition ReleaseOldestBuffer_erased :: "world \<Rightarrow> texture_ref list" where
  "ReleaseOldestBuffer_erased w =
     (case m_pHeldBuffers (limiter w) of [] \<Rightarrow> [] | p # rest \<Rightarrow> [p])"

fun do_call :: "queue_call \<Rightarrow> world \<Rightarrow> texture_ref list \<times> world" where
  "do_call (Hold pTexture) w = ([], w\<lparr> limiter := HoldBuffer pTexture (limiter w) \<rparr>)"
| "do_call (ReleaseOldest rhs) w = (ReleaseOldestBuffer_erased w, snd (ReleaseOldestBuffer rhs w))"

fun run_calls :: "queue_call list \<Rightarrow> world \<Rightarrow> texture_ref list \<times> world" where
  "run_calls [] w = ([], w)"
| "run_calls (c # cs) w =
     (let (released, w1) = do_call c w;
          (released_later, w2) = run_calls cs w1
      in (released @ released_later, w2))"

text \<open>The references a sequence of calls submits, in order.\<close>

fun submitted :: "queue_call list \<Rightarrow> texture_ref list" where
  "submitted [] = []"
| "submitted (Hold pTexture # cs) = pTexture # submitted cs"
| "submitted (ReleaseOldest rhs # cs) = submitted cs"

subsection \<open>Concrete inputs\<close>

text \<open>
  An oracle schedule whose wake-up point is 16,666,666, with a latch member that differs
  from it, and one whose latch member is 16,666,666 too. Textures that were submitted
  once (submit time 1,000,000, completion time 2,000,000, no release before that) and then
  released at 3,000,000, the release having changed the release time only. A limiter that
  was reset by \<^verbatim>\<open>SetTotalBuffers\<close> and then holds the one buffer 7.
\<close>

definition example_schedule :: VBlankScheduleTime where
  "example_schedule =
     \<lparr> VBlankScheduleTime.ulTargetVBlank = 18000000,
       VBlankScheduleTime.ulTargetLatch = 17000000,
       VBlankScheduleTime.ulScheduledWakeupPoint = 16666666 \<rparr>"

definition latch_schedule :: VBlankScheduleTime where
  "latch_schedule =
     \<lparr> VBlankScheduleTime.ulTargetVBlank = 18000000,
       VBlankScheduleTime.ulTargetLatch = 16666666,
       VBlankScheduleTime.ulScheduledWakeupPoint = 16666666 \<rparr>"

definition example_textures :: "texture_ref \<Rightarrow> CVulkanTexture" where
  "example_textures =
     (\<lambda>p. \<lparr> m_BufferTimestamp =
              \<lparr> ulCPUTime = 1000000, ulGPUTime = 2000000, ulReleaseTime = 3000000 \<rparr>,
            m_oBufferTimestamp =
              \<lparr> ulCPUTime = 1000000, ulGPUTime = 2000000, ulReleaseTime = 0 \<rparr> \<rparr>)"

definition fresh_world :: world where
  "fresh_world = \<lparr> limiter = CFPSLimiter_init 0 0, textures = example_textures \<rparr>"

definition holding_world :: world where
  "holding_world =
     \<lparr> limiter = HoldBuffer 7 (SetTotalBuffers 2 (CFPSLimiter_init 0 0)),
       textures = example_textures \<rparr>"

section \<open>Properties\<close>

subsection \<open>Shared lemmas\<close>

lemma CalcNextWakeupTime_fields:
  "ulTargetVBlank (CalcNextWakeupTime vb now b s) = VBlankScheduleTime.ulTargetVBlank vb"
  "ulTargetLatch (CalcNextWakeupTime vb now b s) = VBlankScheduleTime.ulScheduledWakeupPoint vb"
  "ulScheduledWakeupPoint (CalcNextWakeupTime vb now b s) =
     (if VBlankScheduleTime.ulScheduledWakeupPoint vb - (m_ulLastGPUTimestamp s - m_ulLastRelease s)
           > now + 500000
      then now
      else VBlankScheduleTime.ulScheduledWakeupPoint vb - (m_ulLastGPUTimestamp s - m_ulLastRelease s))"
  by (simp_all add: CalcNextWakeupTime_def Let_def)

text \<open>
  What \<^verbatim>\<open>CalcNextWakeupTime\<close> returns as wake-up point is the clock value or lies at most
  500,000 above it (in \<^verbatim>\<open>uint64_t\<close>): a candidate further ahead is replaced by the clock
  value, and any other candidate, also one that lies in the past, is returned as it is.
\<close>

lemma CalcNextWakeupTime_within_slack:
  "ulScheduledWakeupPoint (CalcNextWakeupTime vb now b s) = now
   \<or> ulScheduledWakeupPoint (CalcNextWakeupTime vb now b s) \<le> now + 500000"
  by (auto simp: CalcNextWakeupTime_fields)


lemma MarkFrame_limiter:
  "m_pHeldBuffers (limiter (MarkFrame vb now p cpu gpu rearm w)) = m_pHeldBuffers (limiter w) @ [p]
   \<and> m_uAcquiredBuffers (limiter (MarkFrame vb now p cpu gpu rearm w)) = m_uAcquiredBuffers (limiter w) + 1
   \<and> m_uTotalBuffers (limiter (MarkFrame vb now p cpu gpu rearm w)) = m_uTotalBuffers (limiter w)
   \<and> m_bRunning (limiter (MarkFrame vb now p cpu gpu rearm w)) = m_bRunning (limiter w)
   \<and> m_ulLastGPUTimestamp (limiter (MarkFrame vb now p cpu gpu rearm w)) = m_ulLastGPUTimestamp (limiter w)
   \<and> m_ulLastRelease (limiter (MarkFrame vb now p cpu gpu rearm w)) = m_ulLastRelease (limiter w)
   \<and> m_bArmed (limiter (MarkFrame vb now p cpu gpu rearm w)) =
       (if rearm then True else m_bArmed (limiter w))
   \<and> m_TimerFDSchedule (limiter (MarkFrame vb now p cpu gpu rearm w)) =
       (if rearm then CalcNextWakeupTime vb now False (limiter w) else m_TimerFDSchedule (limiter w))
   \<and> m_ulTimerDeadline (limiter (MarkFrame vb now p cpu gpu rearm w)) =
       (if rearm then Some (ulScheduledWakeupPoint (CalcNextWakeupTime vb now False (limiter w)))
        else m_ulTimerDeadline (limiter w))"
  by (simp add: MarkFrame_def HoldBuffer_def ArmNextFrame_def ArmTimer_def
        CalcNextWakeupTime_def Let_def)

text \<open>What \<^verbatim>\<open>ReleaseOldestBuffer\<close> does on an empty and on a non-empty queue.\<close>

lemma ReleaseOldestBuffer_empty:
  "m_pHeldBuffers (limiter w) = [] \<Longrightarrow> ReleaseOldestBuffer rhs w = (0, w)"
  by (simp add: ReleaseOldestBuffer_def)

lemma ReleaseOldestBuffer_nonempty:
  "m_pHeldBuffers (limiter w) = p # rest \<Longrightarrow>
   fst (ReleaseOldestBuffer rhs w) = m_uAcquiredBuffers (limiter w)
   \<and> m_pHeldBuffers (limiter (snd (ReleaseOldestBuffer rhs w))) = rest
   \<and> m_uAcquiredBuffers (limiter (snd (ReleaseOldestBuffer rhs w))) = m_uAcquiredBuffers (limiter w) - 1
   \<and> textures (snd (ReleaseOldestBuffer rhs w)) =
       (textures w)(p := (textures w p)\<lparr> m_BufferTimestamp := rhs \<rparr>)"
  by (simp add: ReleaseOldestBuffer_def Let_def)

text \<open>
  The distance between the counter and the length of the queue, in the counter's 32 bits.
  Every method that touches the queue keeps it or sets it to 0.
\<close>

lemma HoldBuffer_keeps_distance:
  "m_uAcquiredBuffers (HoldBuffer p s) - of_nat (length (m_pHeldBuffers (HoldBuffer p s))) =
   m_uAcquiredBuffers s - of_nat (length (m_pHeldBuffers s))"
  by (simp add: HoldBuffer_def)

lemma ReleaseOldestBuffer_keeps_distance:
  "m_uAcquiredBuffers (limiter (snd (ReleaseOldestBuffer rhs w)))
     - of_nat (length (m_pHeldBuffers (limiter (snd (ReleaseOldestBuffer rhs w))))) =
   m_uAcquiredBuffers (limiter w) - of_nat (length (m_pHeldBuffers (limiter w)))"
  by (simp add: ReleaseOldestBuffer_def Let_def split: list.splits)

lemma ReleaseAllBuffers_closes_distance:
  "m_uAcquiredBuffers (snd (ReleaseAllBuffers s))
     - of_nat (length (m_pHeldBuffers (snd (ReleaseAllBuffers s)))) = 0"
  by (simp add: ReleaseAllBuffers_def)

lemma MarkFrame_keeps_distance:
  "m_uAcquiredBuffers (limiter (MarkFrame vb now p cpu gpu rearm w))
     - of_nat (length (m_pHeldBuffers (limiter (MarkFrame vb now p cpu gpu rearm w)))) =
   m_uAcquiredBuffers (limiter w) - of_nat (length (m_pHeldBuffers (limiter w)))"
  by (simp add: MarkFrame_def HoldBuffer_def ArmNextFrame_def ArmTimer_def Let_def)

text \<open>One call of a run: what it releases and what it leaves is what was held and what it submits.\<close>

lemma do_call_queue:
  "fst (do_call c w) @ m_pHeldBuffers (limiter (snd (do_call c w))) =
   m_pHeldBuffers (limiter w) @ submitted [c]"
  by (cases c)
     (auto simp: HoldBuffer_def ReleaseOldestBuffer_def ReleaseOldestBuffer_erased_def Let_def
           split: list.splits)

lemma submitted_Cons: "submitted (c # cs) = submitted [c] @ submitted cs"
  by (cases c) simp_all

lemma MarkFrame_ulDelta_value:
  "MarkFrame_ulDelta ts gpu = (if ulReleaseTime ts \<noteq> 0 then gpu else 0)"
  by (simp add: MarkFrame_ulDelta_def Let_def)

subsection \<open>Wake-up time\<close>

text \<open>
  C1 at its own examples: target latch 16,666,666 (the oracle's wake-up point, which the
  limiter returns as target latch, and the oracle's latch member too), last completion
  5,000,000, last release 3,000,000, so that the candidate is 14,666,666. At
  \<open>now = 15,000,000\<close>, where the candidate lies in the past, the limiter returns the
  candidate 14,666,666 and not \<open>now\<close>; at \<open>now = 0\<close> and at \<open>now = 14,000,000\<close>, where
  the candidate lies more than 500,000 ahead, it returns \<open>now\<close> and not 14,666,666.
\<close>

theorem CalcNextWakeupTime_examples:
  "ulTargetLatch
     (CalcNextWakeupTime latch_schedule 15000000 True (CFPSLimiter_init 5000000 3000000)) = 16666666
   \<and> ulScheduledWakeupPoint
     (CalcNextWakeupTime latch_schedule 15000000 True (CFPSLimiter_init 5000000 3000000)) = 14666666
   \<and> ulScheduledWakeupPoint
     (CalcNextWakeupTime latch_schedule 15000000 True (CFPSLimiter_init 5000000 3000000)) \<noteq> 15000000
   \<and> ulScheduledWakeupPoint
     (CalcNextWakeupTime latch_schedule 0 True (CFPSLimiter_init 5000000 3000000)) = 0
   \<and> ulScheduledWakeupPoint
     (CalcNextWakeupTime latch_schedule 14000000 True (CFPSLimiter_init 5000000 3000000)) = 14000000
   \<and> ulScheduledWakeupPoint
     (CalcNextWakeupTime latch_schedule 14000000 True (CFPSLimiter_init 5000000 3000000)) \<noteq> 14666666"
  by (simp add: CalcNextWakeupTime_fields latch_schedule_def CFPSLimiter_init_def)

text \<open>
  C10. For every call and every oracle result, the target latch that \<^verbatim>\<open>CalcNextWakeupTime\<close>
  returns is the oracle schedule's wake-up point; the oracle's own latch member is never
  read (changing it changes nothing in the result); and the candidate release time is the
  oracle's wake-up point minus the latency window.
\<close>

theorem CalcNextWakeupTime_reads_wakeup_point_only:
  "ulTargetLatch (CalcNextWakeupTime vb now b s) = VBlankScheduleTime.ulScheduledWakeupPoint vb
   \<and> CalcNextWakeupTime (vb\<lparr> VBlankScheduleTime.ulTargetLatch := l \<rparr>) now b s
       = CalcNextWakeupTime vb now b s
   \<and> ulScheduledWakeupPoint (CalcNextWakeupTime vb now b s) =
       (if VBlankScheduleTime.ulScheduledWakeupPoint vb - (m_ulLastGPUTimestamp s - m_ulLastRelease s)
             > now + 500000
        then now
        else VBlankScheduleTime.ulScheduledWakeupPoint vb - (m_ulLastGPUTimestamp s - m_ulLastRelease s))"
  by (simp add: CalcNextWakeupTime_def Let_def)




subsection \<open>Arming\<close>

text \<open>
  C6. When the limiter is already armed, \<^verbatim>\<open>ArmNextFrame(true)\<close> changes nothing: the
  armed flag, the cached schedule and the registered timer deadline are as before (and so
  is every other member).
\<close>

theorem ArmNextFrame_preemptive_armed:
  "m_bArmed s \<Longrightarrow> ArmNextFrame vb now True s = s"
  by (simp add: ArmNextFrame_def)

theorem ArmNextFrame_preemptive_armed_witness:
  "m_bArmed ((CFPSLimiter_init 5000000 3000000)\<lparr> m_bArmed := True \<rparr>)
   \<and> ArmNextFrame example_schedule 15000000 True
         ((CFPSLimiter_init 5000000 3000000)\<lparr> m_bArmed := True \<rparr>)
       = (CFPSLimiter_init 5000000 3000000)\<lparr> m_bArmed := True \<rparr>"
  using ArmNextFrame_preemptive_armed
          [of "(CFPSLimiter_init 5000000 3000000)\<lparr> m_bArmed := True \<rparr>" example_schedule 15000000]
  by simp

subsection \<open>The queue of held buffers\<close>


text \<open>
  C7. For every prior state, \<^verbatim>\<open>SetTotalBuffers(n)\<close> sets the total buffer count to \<open>n\<close>,
  empties the queue of held buffers and leaves the acquired count at 0.
\<close>

theorem SetTotalBuffers_resets:
  "m_uTotalBuffers (SetTotalBuffers n s) = n
   \<and> m_pHeldBuffers (SetTotalBuffers n s) = []
   \<and> m_uAcquiredBuffers (SetTotalBuffers n s) = 0"
  by (simp add: SetTotalBuffers_def ReleaseAllBuffers_def)

text \<open>
  C4. For every sequence of \<^verbatim>\<open>HoldBuffer\<close> and \<^verbatim>\<open>ReleaseOldestBuffer\<close> calls, run from any
  state: the buffers released, in the order of their release, followed by the buffers
  still held, are the buffers held at the start followed by the buffers submitted, in the
  order of their submission. So the releases take a prefix of the submissions, none
  skipped and none reordered; and a single \<^verbatim>\<open>ReleaseOldestBuffer\<close> takes out the front
  of the queue and leaves the rest in place.
\<close>

theorem run_calls_fifo:
  "fst (run_calls cs w) @ m_pHeldBuffers (limiter (snd (run_calls cs w))) =
     m_pHeldBuffers (limiter w) @ submitted cs
   \<and> m_pHeldBuffers (limiter w) =
       ReleaseOldestBuffer_erased w @ m_pHeldBuffers (limiter (snd (ReleaseOldestBuffer rhs w)))
   \<and> length (ReleaseOldestBuffer_erased w) \<le> 1"
proof (intro conjI)
  show "fst (run_calls cs w) @ m_pHeldBuffers (limiter (snd (run_calls cs w))) =
     m_pHeldBuffers (limiter w) @ submitted cs"
  proof (induction cs arbitrary: w)
    case Nil
    show ?case by simp
  next
    case (Cons c cs)
    obtain r w1 where c: "do_call c w = (r, w1)"
      by (cases "do_call c w")
    obtain rs w2 where cs: "run_calls cs w1 = (rs, w2)"
      by (cases "run_calls cs w1")
    from Cons.IH [of w1] cs
    have later: "rs @ m_pHeldBuffers (limiter w2) = m_pHeldBuffers (limiter w1) @ submitted cs"
      by simp
    from do_call_queue [of c w] c
    have first: "r @ m_pHeldBuffers (limiter w1) = m_pHeldBuffers (limiter w) @ submitted [c]"
      by simp
    have "r @ rs @ m_pHeldBuffers (limiter w2) = r @ m_pHeldBuffers (limiter w1) @ submitted cs"
      by (simp only: later)
    also have "\<dots> = (m_pHeldBuffers (limiter w) @ submitted [c]) @ submitted cs"
      using first by simp
    finally show ?case
      using c cs submitted_Cons [of c cs] by simp
  qed
next
  show "m_pHeldBuffers (limiter w) =
       ReleaseOldestBuffer_erased w @ m_pHeldBuffers (limiter (snd (ReleaseOldestBuffer rhs w)))"
    by (simp add: ReleaseOldestBuffer_erased_def ReleaseOldestBuffer_def Let_def split: list.splits)
next
  show "length (ReleaseOldestBuffer_erased w) \<le> 1"
    by (simp add: ReleaseOldestBuffer_erased_def split: list.splits)
qed

text \<open>
  C2 at the state the constructor leaves. The default member initialisers give the
  counter the value 1 and the queue no element, so the counter is not the length of the
  queue at the first observation point; after one \<^verbatim>\<open>HoldBuffer\<close> it is 2 with one
  buffer held. (The lemmas on the distance above show that no call but
  \<^verbatim>\<open>ReleaseAllBuffers\<close> and \<^verbatim>\<open>SetTotalBuffers\<close> changes the distance.)
\<close>

theorem CFPSLimiter_init_counter_ahead:
  "unat (m_uAcquiredBuffers (CFPSLimiter_init g r)) = 1
   \<and> length (m_pHeldBuffers (CFPSLimiter_init g r)) = 0
   \<and> unat (m_uAcquiredBuffers (HoldBuffer p (CFPSLimiter_init g r))) = 2
   \<and> length (m_pHeldBuffers (HoldBuffer p (CFPSLimiter_init g r))) = 1"
  by (simp add: CFPSLimiter_init_def HoldBuffer_def)

text \<open>
  C3 at a limiter that holds the one buffer 7, whose texture was last released at
  3,000,000. \<^verbatim>\<open>ReleaseOldestBuffer\<close> returns the count 1, empties the queue and brings the
  counter to 0; the record it leaves in texture 7 is the right-hand side that the source
  does not have. With the texture's own record as that right-hand side the release time is
  still 3,000,000: no clock value enters the method.
\<close>

theorem ReleaseOldestBuffer_release_time:
  "fst (ReleaseOldestBuffer rhs holding_world) = 1
   \<and> m_pHeldBuffers (limiter (snd (ReleaseOldestBuffer rhs holding_world))) = []
   \<and> m_uAcquiredBuffers (limiter (snd (ReleaseOldestBuffer rhs holding_world))) = 0
   \<and> m_BufferTimestamp (textures (snd (ReleaseOldestBuffer rhs holding_world)) 7) = rhs
   \<and> ulReleaseTime (m_BufferTimestamp (textures
         (snd (ReleaseOldestBuffer (m_BufferTimestamp (textures holding_world 7)) holding_world)) 7))
       = 3000000"
  by (simp add: ReleaseOldestBuffer_def holding_world_def example_textures_def HoldBuffer_def
        SetTotalBuffers_def ReleaseAllBuffers_def CFPSLimiter_init_def Let_def)

subsection \<open>Frame submission\<close>


text \<open>
  C5 at a texture last released at 3,000,000 and a frame completed at 5,000,000. The
  latency that \<^verbatim>\<open>MarkFrame\<close> computes is 5,000,000, the completion time itself, not
  5,000,000 - 3,000,000; and \<^verbatim>\<open>MarkFrame\<close> leaves \<open>m_ulLastGPUTimestamp\<close> and
  \<open>m_ulLastRelease\<close> as they were, so the latency window of the next
  \<^verbatim>\<open>CalcNextWakeupTime\<close> is the one from before the call (here 0) and its result is the one
  it would have returned without the call.
\<close>

theorem MarkFrame_latency_not_used:
  "ulReleaseTime (m_BufferTimestamp (textures fresh_world 7)) = 3000000
   \<and> MarkFrame_ulDelta (m_BufferTimestamp (textures fresh_world 7)) 5000000 = 5000000
   \<and> MarkFrame_ulDelta (m_BufferTimestamp (textures fresh_world 7)) 5000000 \<noteq> 5000000 - 3000000
   \<and> m_ulLastGPUTimestamp (limiter (MarkFrame example_schedule 6000000 7 4000000 5000000 True fresh_world))
       - m_ulLastRelease (limiter (MarkFrame example_schedule 6000000 7 4000000 5000000 True fresh_world))
       = 0
   \<and> CalcNextWakeupTime example_schedule 17000000 True
         (limiter (MarkFrame example_schedule 6000000 7 4000000 5000000 True fresh_world))
       = CalcNextWakeupTime example_schedule 17000000 True (limiter fresh_world)
   \<and> ulScheduledWakeupPoint (CalcNextWakeupTime example_schedule 17000000 True
         (limiter (MarkFrame example_schedule 6000000 7 4000000 5000000 True fresh_world)))
       = 16666666"
  by (simp add: MarkFrame_ulDelta_value MarkFrame_def HoldBuffer_def ArmNextFrame_def ArmTimer_def
        CalcNextWakeupTime_def fresh_world_def example_textures_def example_schedule_def
        CFPSLimiter_init_def Let_def)

end
